theory Spec2Isabelle
  imports Main
begin

section \<open>Configuration validation of whitebox-controller (config/config.go)\<close>

text \<open>
  The theory embeds the configuration types of \<^verbatim>\<open>config/config.go\<close> and their
  \<^verbatim>\<open>Validate\<close> methods, together with \<^verbatim>\<open>LoadFile\<close>. The source file holds two
  revisions of the package; the embedding follows the first one, which declares
  \<^verbatim>\<open>MetricsConfig\<close>, \<^verbatim>\<open>ReferenceConfig\<close>, \<^verbatim>\<open>ReconcilerConfig\<close> and \<^verbatim>\<open>InjectorConfig\<close>.

  \<^item> A Go struct is a record; a field of pointer type \<^verbatim>\<open>*T\<close> is a \<open>T option\<close>, with
    \<open>None\<close> for the nil pointer. An embedded struct is a field that carries the name
    of its type, as in Go.
  \<^item> A Go \<^verbatim>\<open>error\<close> result is an \<open>error option\<close>, with \<open>None\<close> for nil.
  \<^item> The library calls \<^verbatim>\<open>time.ParseDuration\<close>, \<^verbatim>\<open>os.Stat\<close>, \<^verbatim>\<open>ioutil.ReadFile\<close> and
    \<^verbatim>\<open>yaml.Unmarshal\<close> are parameters of the functions that use them.
  \<^item> The interface type \<^verbatim>\<open>handler.Handler\<close> is the type parameter \<open>'h\<close>; an interface
    value is an \<open>'h option\<close>, with \<open>None\<close> for the nil interface.
\<close>

subsection \<open>Errors\<close>

text \<open>
  \<open>New msg\<close> is \<^verbatim>\<open>errors.New(msg)\<close>; \<open>Errorf format args\<close> is
  \<^verbatim>\<open>fmt.Errorf(format, args...)\<close> with the format string and the arguments as the
  source passes them. Errors of the library calls are values of the same type.
\<close>

datatype error =
    New string
  | Errorf string "fmt_arg list"
and fmt_arg =
    ArgInt int
  | ArgErr error

text \<open>
  A call either returns or panics. The only panic of the validation code is the
  nil-pointer dereference of \<^verbatim>\<open>c.Name\<close> when an entry of \<^verbatim>\<open>Controllers\<close> is nil.
\<close>

datatype 'a outcome = Return 'a | Panic

subsection \<open>Data model\<close>

text \<open>
  \<^verbatim>\<open>schema.GroupVersionKind\<close> of k8s.io/apimachinery: three strings, and
  \<^verbatim>\<open>Empty()\<close> holds when all three have length zero.
\<close>

record GroupVersionKind =
  Group :: string
  Version :: string
  Kind :: string

definition Empty :: "GroupVersionKind \<Rightarrow> bool" where
  "Empty gvk \<longleftrightarrow> length (Group gvk) = 0 \<and> length (Version gvk) = 0 \<and> length (Kind gvk) = 0"

record DependentConfig =
  GroupVersionKind :: GroupVersionKind
  Orphan :: bool

record ReferenceConfig =
  GroupVersionKind :: GroupVersionKind
  NameFieldPath :: string

record ExecHandlerConfig =
  Command :: string
  Args :: "string list"
  WorkingDir :: string
  Env :: "string \<rightharpoonup> string"
  Timeout :: string
  Debug :: bool

record HTTPHanlderTLSConfig =
  CertFile :: string
  KeyFile :: string
  CACertFile :: string

record HTTPHandlerConfig =
  URL :: string
  TLS :: "HTTPHanlderTLSConfig option"
  Timeout :: string
  Debug :: bool

record 'h FuncHandlerConfig =
  Handler :: "'h option"

record 'h HandlerConfig =
  Exec :: "ExecHandlerConfig option"
  HTTP :: "HTTPHandlerConfig option"
  Func :: "'h FuncHandlerConfig option"

record 'h ReconcilerConfig =
  HandlerConfig :: "'h HandlerConfig"
  RequeueAfter :: string
  Observe :: bool

record SyncerConfig =
  Interval :: string

record 'h ControllerConfig =
  Name :: string
  Resource :: GroupVersionKind
  Dependents :: "DependentConfig list"
  References :: "ReferenceConfig list"
  Reconciler :: "'h ReconcilerConfig option"
  Finalizer :: "'h HandlerConfig option"
  Syncer :: "SyncerConfig option"

record WebhookTLSConfig =
  CertFile :: string
  KeyFile :: string

record 'h InjectorConfig =
  HandlerConfig :: "'h HandlerConfig"
  VerifyKeyFile :: string

record 'h WebhookHandlerConfig =
  Resource :: GroupVersionKind
  Validator :: "'h HandlerConfig option"
  Mutator :: "'h HandlerConfig option"
  Injector :: "'h InjectorConfig option"

record 'h WebhookConfig =
  Host :: string
  Port :: int
  TLS :: "WebhookTLSConfig option"
  Handlers :: "'h WebhookHandlerConfig option list"

record MetricsConfig =
  Host :: string
  Port :: int

record 'h Config =
  Controllers :: "'h ControllerConfig option list"
  Webhook :: "'h WebhookConfig option"
  Metrics :: "MetricsConfig option"

subsection \<open>Library calls\<close>

text \<open>
  \<open>parse_duration s\<close> is the error result of \<^verbatim>\<open>time.ParseDuration(s)\<close> (the duration
  itself is discarded by every caller); \<open>stat p\<close> is the error result of
  \<^verbatim>\<open>os.Stat(p)\<close>; \<open>read_file p\<close> is the pair returned by \<^verbatim>\<open>ioutil.ReadFile(p)\<close>;
  \<open>unmarshal buf c\<close> is the configuration that \<^verbatim>\<open>yaml.Unmarshal(buf, c)\<close> leaves
  behind the pointer \<^verbatim>\<open>c\<close>, with the error it returns.
\<close>

type_synonym parse_duration = "string \<Rightarrow> error option"
type_synonym stat = "string \<Rightarrow> error option"
type_synonym read_file = "string \<Rightarrow> string \<times> error option"
type_synonym 'h unmarshal = "string \<Rightarrow> 'h Config \<Rightarrow> 'h Config \<times> error option"

subsection \<open>Leaf validators\<close>

definition DependentConfig_Validate :: "DependentConfig \<Rightarrow> error option" where
  "DependentConfig_Validate c =
    (if Empty (DependentConfig.GroupVersionKind c) then Some (New ''resource is empty'')
     else None)"

definition ReferenceConfig_Validate :: "ReferenceConfig \<Rightarrow> error option" where
  "ReferenceConfig_Validate c =
    (if Empty (ReferenceConfig.GroupVersionKind c) then Some (New ''resource is empty'')
     else if NameFieldPath c = '''' then Some (New ''nameFieldPath must be specified'')
     else None)"

definition ExecHandlerConfig_Validate :: "parse_duration \<Rightarrow> ExecHandlerConfig \<Rightarrow> error option" where
  "ExecHandlerConfig_Validate parse_duration c =
    (if Command c = '''' then Some (New ''command must be specified'')
     else if ExecHandlerConfig.Timeout c \<noteq> '''' then
       (case parse_duration (ExecHandlerConfig.Timeout c) of
          Some err \<Rightarrow> Some (Errorf ''invalid timeout: %v'' [ArgErr err])
        | None \<Rightarrow> None)
     else None)"

definition HTTPHanlderTLSConfig_Validate :: "HTTPHanlderTLSConfig \<Rightarrow> error option" where
  "HTTPHanlderTLSConfig_Validate c =
    (if HTTPHanlderTLSConfig.CertFile c \<noteq> '''' then Some (New ''cert file must be specified'')
     else if HTTPHanlderTLSConfig.KeyFile c \<noteq> '''' then Some (New ''key file must be specified'')
     else None)"

definition HTTPHandlerConfig_Validate :: "parse_duration \<Rightarrow> HTTPHandlerConfig \<Rightarrow> error option" where
  "HTTPHandlerConfig_Validate parse_duration c =
    (if URL c = '''' then Some (New ''url must be specified'')
     else
       case (case HTTPHandlerConfig.TLS c of
               None \<Rightarrow> None
             | Some tls \<Rightarrow>
                 (case HTTPHanlderTLSConfig_Validate tls of
                    Some err \<Rightarrow> Some (Errorf ''tls: %v'' [ArgErr err])
                  | None \<Rightarrow> None)) of
         Some e \<Rightarrow> Some e
       | None \<Rightarrow>
           if HTTPHandlerConfig.Timeout c \<noteq> '''' then
             (case parse_duration (HTTPHandlerConfig.Timeout c) of
                Some err \<Rightarrow> Some (Errorf ''invalid timeout: %v'' [ArgErr err])
              | None \<Rightarrow> None)
           else None)"

definition FuncHandlerConfig_Validate :: "'h FuncHandlerConfig \<Rightarrow> error option" where
  "FuncHandlerConfig_Validate c =
    (if Handler c = None then Some (New ''handler must be specified'') else None)"

definition SyncerConfig_Validate :: "parse_duration \<Rightarrow> SyncerConfig \<Rightarrow> error option" where
  "SyncerConfig_Validate parse_duration c =
    (if Interval c \<noteq> '''' then
       (case parse_duration (Interval c) of
          Some err \<Rightarrow> Some (Errorf ''invalid interval: %v'' [ArgErr err])
        | None \<Rightarrow> None)
     else None)"

definition WebhookTLSConfig_Validate :: "WebhookTLSConfig \<Rightarrow> error option" where
  "WebhookTLSConfig_Validate c =
    (if WebhookTLSConfig.CertFile c = '''' then Some (New ''cert file must be specified'')
     else if WebhookTLSConfig.KeyFile c = '''' then Some (New ''key file must be specified'')
     else None)"

definition MetricsConfig_Validate :: "MetricsConfig \<Rightarrow> error option" where
  "MetricsConfig_Validate c =
    (if MetricsConfig.Port c = 0 then Some (New ''port must be specified'') else None)"

subsection \<open>Handler configurations\<close>

text \<open>
  \<open>specified\<close> is the counter of \<^verbatim>\<open>HandlerConfig.Validate\<close>: one for each of
  \<^verbatim>\<open>Exec\<close>, \<^verbatim>\<open>HTTP\<close> and \<^verbatim>\<open>Func\<close> that is not nil.
\<close>

definition specified :: "'h HandlerConfig \<Rightarrow> nat" where
  "specified c =
    (if Exec c \<noteq> None then 1 else 0) + (if HTTP c \<noteq> None then 1 else 0)
      + (if Func c \<noteq> None then 1 else 0)"

definition HandlerConfig_Validate :: "parse_duration \<Rightarrow> 'h HandlerConfig \<Rightarrow> error option" where
  "HandlerConfig_Validate parse_duration c =
    (if specified c = 0 then Some (New ''handler must be specified'')
     else if specified c > 1 then Some (New ''exactly one handler must be specified'')
     else
       case (case Exec c of None \<Rightarrow> None | Some ex \<Rightarrow> ExecHandlerConfig_Validate parse_duration ex) of
         Some err \<Rightarrow> Some err
       | None \<Rightarrow>
          (case (case HTTP c of None \<Rightarrow> None | Some h \<Rightarrow> HTTPHandlerConfig_Validate parse_duration h) of
             Some err \<Rightarrow> Some err
           | None \<Rightarrow>
              (case (case Func c of None \<Rightarrow> None | Some f \<Rightarrow> FuncHandlerConfig_Validate f) of
                 Some err \<Rightarrow> Some err
               | None \<Rightarrow> None)))"

definition ReconcilerConfig_Validate :: "parse_duration \<Rightarrow> 'h ReconcilerConfig \<Rightarrow> error option" where
  "ReconcilerConfig_Validate parse_duration c =
    (case (if RequeueAfter c \<noteq> '''' then
             (case parse_duration (RequeueAfter c) of
                Some err \<Rightarrow> Some (Errorf ''invalid requeueAfter: %v'' [ArgErr err])
              | None \<Rightarrow> None)
           else None) of
       Some e \<Rightarrow> Some e
     | None \<Rightarrow> HandlerConfig_Validate parse_duration (ReconcilerConfig.HandlerConfig c))"

definition InjectorConfig_Validate :: "parse_duration \<Rightarrow> stat \<Rightarrow> 'h InjectorConfig \<Rightarrow> error option" where
  "InjectorConfig_Validate parse_duration stat c =
    (case stat (VerifyKeyFile c) of
       Some err \<Rightarrow> Some (Errorf ''failed to read verification key file: %v'' [ArgErr err])
     | None \<Rightarrow> HandlerConfig_Validate parse_duration (InjectorConfig.HandlerConfig c))"

definition WebhookHandlerConfig_Validate :: "parse_duration \<Rightarrow> 'h WebhookHandlerConfig \<Rightarrow> error option" where
  "WebhookHandlerConfig_Validate parse_duration c =
    (if Empty (WebhookHandlerConfig.Resource c) then Some (New ''resource is empty'')
     else
       case Validator c of
         None \<Rightarrow> None
       | Some v \<Rightarrow>
          (case HandlerConfig_Validate parse_duration v of
             Some err \<Rightarrow> Some (Errorf ''validator: %v'' [ArgErr err])
           | None \<Rightarrow> None))"

definition WebhookConfig_Validate :: "'h WebhookConfig \<Rightarrow> error option" where
  "WebhookConfig_Validate c =
    (case WebhookConfig.TLS c of
       None \<Rightarrow> Some (New ''tls must be specified'')
     | Some tls \<Rightarrow>
        (case WebhookTLSConfig_Validate tls of
           Some err \<Rightarrow> Some (Errorf ''tls: %v'' [ArgErr err])
         | None \<Rightarrow> None))"

subsection \<open>Controller configurations\<close>

text \<open>
  The two \<^verbatim>\<open>for i, x := range\<close> loops of \<^verbatim>\<open>ControllerConfig.Validate\<close>; the first
  argument is the index \<^verbatim>\<open>i\<close> of the head of the list.
\<close>

fun validate_References :: "nat \<Rightarrow> ReferenceConfig list \<Rightarrow> error option" where
  "validate_References i [] = None"
| "validate_References i (ref # refs) =
    (case ReferenceConfig_Validate ref of
       Some err \<Rightarrow> Some (Errorf ''references[%d]: %v'' [ArgInt (int i), ArgErr err])
     | None \<Rightarrow> validate_References (Suc i) refs)"

fun validate_Dependents :: "nat \<Rightarrow> DependentConfig list \<Rightarrow> error option" where
  "validate_Dependents i [] = None"
| "validate_Dependents i (dep # deps) =
    (if Empty (DependentConfig.GroupVersionKind dep)
     then Some (Errorf ''dependents[%d] is empty'' [ArgInt (int i)])
     else validate_Dependents (Suc i) deps)"

definition ControllerConfig_Validate :: "parse_duration \<Rightarrow> 'h ControllerConfig \<Rightarrow> error option" where
  "ControllerConfig_Validate parse_duration c =
    (if Name c = '''' then Some (New ''name must be specified'')
     else if Empty (ControllerConfig.Resource c) then Some (New ''resource is empty'')
     else
       case validate_References 0 (References c) of
         Some e \<Rightarrow> Some e
       | None \<Rightarrow>
          (case validate_Dependents 0 (Dependents c) of
             Some e \<Rightarrow> Some e
           | None \<Rightarrow>
              (case Reconciler c of
                 None \<Rightarrow> Some (New ''reconciler must be specified'')
               | Some r \<Rightarrow>
                  (case ReconcilerConfig_Validate parse_duration r of
                     Some err \<Rightarrow> Some (Errorf ''reconciler: %v'' [ArgErr err])
                   | None \<Rightarrow>
                      (case (case Finalizer c of
                               None \<Rightarrow> None
                             | Some f \<Rightarrow>
                                (case HandlerConfig_Validate parse_duration f of
                                   Some err \<Rightarrow> Some (Errorf ''finalizer: %v'' [ArgErr err])
                                 | None \<Rightarrow> None)) of
                         Some e \<Rightarrow> Some e
                       | None \<Rightarrow>
                          (case Syncer c of
                             None \<Rightarrow> None
                           | Some s \<Rightarrow>
                              (case SyncerConfig_Validate parse_duration s of
                                 Some err \<Rightarrow> Some (Errorf ''syncer: %v'' [ArgErr err])
                               | None \<Rightarrow> None)))))))"

subsection \<open>The whole configuration\<close>

text \<open>
  The loop over \<^verbatim>\<open>c.Controllers\<close>. The entries are pointers; calling
  \<^verbatim>\<open>controller.Validate()\<close> on a nil entry dereferences it at \<^verbatim>\<open>c.Name\<close> and panics.
\<close>

fun validate_Controllers ::
  "parse_duration \<Rightarrow> nat \<Rightarrow> 'h ControllerConfig option list \<Rightarrow> error option outcome" where
  "validate_Controllers parse_duration i [] = Return None"
| "validate_Controllers parse_duration i (None # controllers) = Panic"
| "validate_Controllers parse_duration i (Some controller # controllers) =
    (case ControllerConfig_Validate parse_duration controller of
       Some err \<Rightarrow> Return (Some (Errorf ''controller[%d]: %v'' [ArgInt (int i), ArgErr err]))
     | None \<Rightarrow> validate_Controllers parse_duration (Suc i) controllers)"

definition Config_Validate :: "parse_duration \<Rightarrow> 'h Config \<Rightarrow> error option outcome" where
  "Config_Validate parse_duration c =
    (case validate_Controllers parse_duration 0 (Controllers c) of
       Panic \<Rightarrow> Panic
     | Return (Some e) \<Rightarrow> Return (Some e)
     | Return None \<Rightarrow>
        (case (case Webhook c of
                 None \<Rightarrow> None
               | Some w \<Rightarrow>
                  (case WebhookConfig_Validate w of
                     Some err \<Rightarrow> Some (Errorf ''webhook: %v'' [ArgErr err])
                   | None \<Rightarrow> None)) of
           Some e \<Rightarrow> Return (Some e)
         | None \<Rightarrow>
            (case Metrics c of
               None \<Rightarrow> Return None
             | Some m \<Rightarrow>
                (case MetricsConfig_Validate m of
                   Some err \<Rightarrow> Return (Some (Errorf ''metrics: %v'' [ArgErr err]))
                 | None \<Rightarrow> Return None))))"

text \<open>
  \<^verbatim>\<open>LoadFile\<close> returns the pair \<^verbatim>\<open>(*Config, error)\<close>. \<^verbatim>\<open>&Config{}\<close> is the zero
  configuration: a nil slice and two nil pointers.
\<close>

definition zero_Config :: "'h Config" where
  "zero_Config = \<lparr>Controllers = [], Webhook = None, Metrics = None\<rparr>"

definition LoadFile ::
  "read_file \<Rightarrow> 'h unmarshal \<Rightarrow> parse_duration \<Rightarrow> string \<Rightarrow> ('h Config option \<times> error option) outcome" where
  "LoadFile read_file unmarshal parse_duration p =
    (case read_file p of
       (buf, Some err) \<Rightarrow> Return (None, Some err)
     | (buf, None) \<Rightarrow>
        (case unmarshal buf zero_Config of
           (c, Some err) \<Rightarrow> Return (None, Some err)
         | (c, None) \<Rightarrow>
            (case Config_Validate parse_duration c of
               Panic \<Rightarrow> Panic
             | Return (Some err) \<Rightarrow> Return (None, Some err)
             | Return None \<Rightarrow> Return (Some c, None))))"

subsection \<open>Example environment and configurations\<close>

text \<open>
  The examples below are the concrete inputs at which the theorems are evaluated. The
  example library calls answer on the few strings and paths that the examples use;
  the interface type \<^verbatim>\<open>handler.Handler\<close> is instantiated with \<open>unit\<close>.
\<close>

definition example_parse_duration :: parse_duration where
  "example_parse_duration s =
    (if s = ''10s'' \<or> s = ''1m'' then None else Some (New (''time: invalid duration '' @ s)))"

definition example_stat :: stat where
  "example_stat p =
    (if p = ''/etc/whitebox/verify.pem'' then None
     else Some (New (''stat '' @ p @ '': no such file or directory'')))"

definition example_gvk :: GroupVersionKind where
  "example_gvk = \<lparr>Group = ''whitebox.summerwind.dev'', Version = ''v1alpha1'', Kind = ''Hello''\<rparr>"

definition example_exec :: ExecHandlerConfig where
  "example_exec =
    \<lparr>Command = ''/bin/reconciler'', Args = [], WorkingDir = '''', Env = Map.empty,
     ExecHandlerConfig.Timeout = ''10s'', ExecHandlerConfig.Debug = False\<rparr>"

definition example_http :: HTTPHandlerConfig where
  "example_http =
    \<lparr>URL = ''http://127.0.0.1:8080/'', HTTPHandlerConfig.TLS = None,
     HTTPHandlerConfig.Timeout = ''1m'', HTTPHandlerConfig.Debug = False\<rparr>"

definition specified_tls :: HTTPHanlderTLSConfig where
  "specified_tls =
    \<lparr>HTTPHanlderTLSConfig.CertFile = ''tls.crt'', HTTPHanlderTLSConfig.KeyFile = ''tls.key'',
     CACertFile = ''''\<rparr>"

definition blank_tls :: HTTPHanlderTLSConfig where
  "blank_tls =
    \<lparr>HTTPHanlderTLSConfig.CertFile = '''', HTTPHanlderTLSConfig.KeyFile = '''',
     CACertFile = ''''\<rparr>"

definition exec_handler :: "unit HandlerConfig" where
  "exec_handler = \<lparr>Exec = Some example_exec, HTTP = None, Func = None\<rparr>"

definition http_handler :: "unit HandlerConfig" where
  "http_handler = \<lparr>Exec = None, HTTP = Some example_http, Func = None\<rparr>"

definition func_handler :: "unit HandlerConfig" where
  "func_handler = \<lparr>Exec = None, HTTP = None, Func = Some \<lparr>Handler = Some ()\<rparr>\<rparr>"

definition no_handler :: "unit HandlerConfig" where
  "no_handler = \<lparr>Exec = None, HTTP = None, Func = None\<rparr>"

definition two_handlers :: "unit HandlerConfig" where
  "two_handlers = \<lparr>Exec = Some example_exec, HTTP = Some example_http, Func = None\<rparr>"

definition example_reconciler :: "unit ReconcilerConfig" where
  "example_reconciler =
    \<lparr>ReconcilerConfig.HandlerConfig = exec_handler, RequeueAfter = '''', Observe = False\<rparr>"

definition example_reference :: ReferenceConfig where
  "example_reference =
    \<lparr>ReferenceConfig.GroupVersionKind = \<lparr>Group = '''', Version = ''v1'', Kind = ''ConfigMap''\<rparr>,
     NameFieldPath = ''spec.configRef.name''\<rparr>"

definition example_dependent :: DependentConfig where
  "example_dependent =
    \<lparr>DependentConfig.GroupVersionKind = \<lparr>Group = '''', Version = ''v1'', Kind = ''ConfigMap''\<rparr>,
     Orphan = False\<rparr>"

definition example_controller :: "unit ControllerConfig" where
  "example_controller =
    \<lparr>Name = ''hello'', ControllerConfig.Resource = example_gvk,
     Dependents = [example_dependent], References = [example_reference],
     Reconciler = Some example_reconciler, Finalizer = None, Syncer = None\<rparr>"

definition other_controller :: "unit ControllerConfig" where
  "other_controller =
    \<lparr>Name = ''hello'',
     ControllerConfig.Resource =
       \<lparr>Group = ''whitebox.summerwind.dev'', Version = ''v1alpha1'', Kind = ''World''\<rparr>,
     Dependents = [], References = [],
     Reconciler = Some example_reconciler, Finalizer = None, Syncer = None\<rparr>"

definition duplicate_names_config :: "unit Config" where
  "duplicate_names_config =
    \<lparr>Controllers = [Some example_controller, Some other_controller], Webhook = None,
     Metrics = None\<rparr>"

definition webhook_without_tls :: "unit WebhookConfig" where
  "webhook_without_tls =
    \<lparr>WebhookConfig.Host = ''0.0.0.0'', WebhookConfig.Port = 443, WebhookConfig.TLS = None,
     Handlers = []\<rparr>"

definition webhook_without_key :: "unit WebhookConfig" where
  "webhook_without_key =
    \<lparr>WebhookConfig.Host = ''0.0.0.0'', WebhookConfig.Port = 443,
     WebhookConfig.TLS =
       Some \<lparr>WebhookTLSConfig.CertFile = ''tls.crt'', WebhookTLSConfig.KeyFile = ''''\<rparr>,
     Handlers = []\<rparr>"

definition example_injector :: "unit InjectorConfig" where
  "example_injector =
    \<lparr>InjectorConfig.HandlerConfig = exec_handler, VerifyKeyFile = ''/etc/whitebox/verify.pem''\<rparr>"

definition missing_key_injector :: "unit InjectorConfig" where
  "missing_key_injector =
    \<lparr>InjectorConfig.HandlerConfig = exec_handler, VerifyKeyFile = ''/nonexistent.pem''\<rparr>"

definition two_handlers_injector :: "unit InjectorConfig" where
  "two_handlers_injector =
    \<lparr>InjectorConfig.HandlerConfig = two_handlers, VerifyKeyFile = ''/etc/whitebox/verify.pem''\<rparr>"

definition example_webhook_handler :: "unit WebhookHandlerConfig" where
  "example_webhook_handler =
    \<lparr>WebhookHandlerConfig.Resource = example_gvk, Validator = Some exec_handler,
     Mutator = Some no_handler, Injector = Some two_handlers_injector\<rparr>"

definition valid_config :: "unit Config" where
  "valid_config = \<lparr>Controllers = [Some example_controller], Webhook = None, Metrics = None\<rparr>"

definition unnamed_config :: "unit Config" where
  "unnamed_config =
    \<lparr>Controllers = [Some (example_controller\<lparr>Name := ''''\<rparr>)], Webhook = None,
     Metrics = None\<rparr>"

definition example_read_file :: read_file where
  "example_read_file p =
    (if p = ''config.yaml'' then (''controllers: [{name: hello}]'', None)
     else if p = ''unnamed.yaml'' then (''controllers: [{}]'', None)
     else if p = ''broken.yaml'' then (''controllers: ['', None)
     else ('''', Some (New (''open '' @ p @ '': no such file or directory''))))"

definition example_unmarshal :: "unit unmarshal" where
  "example_unmarshal buf c =
    (if buf = ''controllers: [{name: hello}]'' then (valid_config, None)
     else if buf = ''controllers: [{}]'' then (unnamed_config, None)
     else (c, Some (New ''yaml: did not find expected node content'')))"

section \<open>Properties\<close>

lemmas validate_defs =
  Empty_def DependentConfig_Validate_def ReferenceConfig_Validate_def
  ExecHandlerConfig_Validate_def HTTPHanlderTLSConfig_Validate_def
  HTTPHandlerConfig_Validate_def FuncHandlerConfig_Validate_def SyncerConfig_Validate_def
  WebhookTLSConfig_Validate_def MetricsConfig_Validate_def specified_def
  HandlerConfig_Validate_def ReconcilerConfig_Validate_def InjectorConfig_Validate_def
  WebhookHandlerConfig_Validate_def WebhookConfig_Validate_def ControllerConfig_Validate_def
  Config_Validate_def LoadFile_def zero_Config_def

lemmas example_defs =
  example_parse_duration_def example_stat_def example_gvk_def example_exec_def
  example_http_def specified_tls_def blank_tls_def exec_handler_def http_handler_def
  func_handler_def no_handler_def two_handlers_def example_reconciler_def
  example_reference_def example_dependent_def example_controller_def other_controller_def
  duplicate_names_config_def webhook_without_tls_def webhook_without_key_def
  example_injector_def missing_key_injector_def two_handlers_injector_def
  example_webhook_handler_def valid_config_def unnamed_config_def example_read_file_def
  example_unmarshal_def

subsection \<open>The loops\<close>

lemma validate_References_None_iff:
  "validate_References i refs = None \<longleftrightarrow> (\<forall>r \<in> set refs. ReferenceConfig_Validate r = None)"
  by (induction refs arbitrary: i) (auto split: option.splits)

lemma validate_Dependents_None_iff:
  "validate_Dependents i deps = None \<longleftrightarrow>
     (\<forall>d \<in> set deps. \<not> Empty (DependentConfig.GroupVersionKind d))"
  by (induction deps arbitrary: i) auto

lemma validate_Controllers_Return_None_iff:
  "validate_Controllers pd i cs = Return None \<longleftrightarrow>
     (\<forall>x \<in> set cs. \<exists>c. x = Some c \<and> ControllerConfig_Validate pd c = None)"
proof (induction cs arbitrary: i)
  case Nil
  then show ?case by simp
next
  case (Cons x xs)
  then show ?case by (cases x) (auto split: option.splits)
qed

lemma validate_Controllers_no_nil:
  "None \<notin> set cs \<Longrightarrow> validate_Controllers pd i cs \<noteq> Panic"
proof (induction cs arbitrary: i)
  case Nil
  then show ?case by simp
next
  case (Cons x xs)
  then show ?case by (cases x) (auto split: option.splits)
qed

subsection \<open>When a configuration is accepted\<close>

lemma HTTPHanlderTLSConfig_Validate_None_iff:
  "HTTPHanlderTLSConfig_Validate c = None \<longleftrightarrow>
     HTTPHanlderTLSConfig.CertFile c = '''' \<and> HTTPHanlderTLSConfig.KeyFile c = ''''"
  by (simp add: HTTPHanlderTLSConfig_Validate_def)

lemma ControllerConfig_Validate_None_iff:
  "ControllerConfig_Validate pd c = None \<longleftrightarrow>
     Name c \<noteq> '''' \<and> \<not> Empty (ControllerConfig.Resource c) \<and>
     validate_References 0 (References c) = None \<and>
     validate_Dependents 0 (Dependents c) = None \<and>
     (\<exists>r. Reconciler c = Some r \<and> ReconcilerConfig_Validate pd r = None) \<and>
     (case Finalizer c of None \<Rightarrow> True | Some f \<Rightarrow> HandlerConfig_Validate pd f = None) \<and>
     (case Syncer c of None \<Rightarrow> True | Some s \<Rightarrow> SyncerConfig_Validate pd s = None)"
  by (auto simp: ControllerConfig_Validate_def split: option.splits)

lemma Config_Validate_Return_None_iff:
  "Config_Validate pd c = Return None \<longleftrightarrow>
     validate_Controllers pd 0 (Controllers c) = Return None \<and>
     (case Webhook c of None \<Rightarrow> True | Some w \<Rightarrow> WebhookConfig_Validate w = None) \<and>
     (case Metrics c of None \<Rightarrow> True | Some m \<Rightarrow> MetricsConfig_Validate m = None)"
  by (auto simp: Config_Validate_def split: outcome.splits option.splits)

lemma Config_Validate_Panic_iff:
  "Config_Validate pd c = Panic \<longleftrightarrow> validate_Controllers pd 0 (Controllers c) = Panic"
  by (auto simp: Config_Validate_def split: outcome.splits option.splits)

lemma HandlerConfig_Validate_not_key_error:
  "HandlerConfig_Validate pd c \<noteq> Some (Errorf ''failed to read verification key file: %v'' args)"
  by (auto simp: HandlerConfig_Validate_def ExecHandlerConfig_Validate_def
        HTTPHandlerConfig_Validate_def FuncHandlerConfig_Validate_def
      split: option.splits if_splits)

subsection \<open>TLS block of an HTTP handler\<close>

text \<open>
  C1. A TLS block of an HTTP handler should be accepted when \<^verbatim>\<open>certFile\<close> and
  \<^verbatim>\<open>keyFile\<close> are both non-empty and rejected when one of them is empty. The two
  comparisons of \<^verbatim>\<open>HTTPHanlderTLSConfig.Validate\<close> are \<^verbatim>\<open>!= ""\<close>, so the code does
  the opposite: a block with both paths is rejected with the message
  ``cert file must be specified'', the HTTP handler that carries it is rejected with it,
  and the block with two empty paths is accepted.
\<close>

theorem HTTPHanlderTLSConfig_Validate_inverted:
  "HTTPHanlderTLSConfig_Validate specified_tls = Some (New ''cert file must be specified'') \<and>
   HTTPHandlerConfig_Validate example_parse_duration
       (example_http\<lparr>HTTPHandlerConfig.TLS := Some specified_tls\<rparr>)
     = Some (Errorf ''tls: %v'' [ArgErr (New ''cert file must be specified'')]) \<and>
   HTTPHanlderTLSConfig_Validate blank_tls = None \<and>
   HTTPHandlerConfig_Validate example_parse_duration
       (example_http\<lparr>HTTPHandlerConfig.TLS := Some blank_tls\<rparr>) = None"
  by (simp add: validate_defs example_defs)

subsection \<open>Verification key of an injector\<close>

text \<open>
  C2, as stated: \<^verbatim>\<open>InjectorConfig.Validate\<close> returns an error exactly when
  \<^verbatim>\<open>os.Stat\<close> on \<^verbatim>\<open>VerifyKeyFile\<close> fails. The statement fails in the direction from
  an error to a failed stat: after a successful stat the method returns whatever the
  validation of the embedded handler configuration returns. For the injector below the
  key file exists, both \<^verbatim>\<open>Exec\<close> and \<^verbatim>\<open>HTTP\<close> are set, and the result is the error
  ``exactly one handler must be specified''.
\<close>

theorem InjectorConfig_Validate_error_with_existing_key_file:
  "example_stat (VerifyKeyFile two_handlers_injector) = None \<and>
   InjectorConfig_Validate example_parse_duration example_stat two_handlers_injector
     = Some (New ''exactly one handler must be specified'')"
  by (simp add: validate_defs example_defs)

text \<open>
  C2, amended: \<^verbatim>\<open>InjectorConfig.Validate\<close> requires that \<^verbatim>\<open>os.Stat\<close> succeeds on
  \<^verbatim>\<open>VerifyKeyFile\<close> (the file is neither opened nor read). When the stat fails it
  returns an error; when the stat succeeds its result is the result of validating the
  embedded handler configuration, nil or an error; and the error
  ``failed to read verification key file'' is returned exactly when the stat fails.
\<close>

theorem InjectorConfig_Validate_requires_key_file:
  "(stat (VerifyKeyFile c) \<noteq> None \<longrightarrow> InjectorConfig_Validate pd stat c \<noteq> None) \<and>
   (stat (VerifyKeyFile c) = None \<longrightarrow>
      InjectorConfig_Validate pd stat c =
        HandlerConfig_Validate pd (InjectorConfig.HandlerConfig c)) \<and>
   ((\<exists>err. InjectorConfig_Validate pd stat c =
        Some (Errorf ''failed to read verification key file: %v'' [ArgErr err]))
      \<longleftrightarrow> stat (VerifyKeyFile c) \<noteq> None)"
  using HandlerConfig_Validate_not_key_error [of pd "InjectorConfig.HandlerConfig c"]
  by (auto simp: InjectorConfig_Validate_def split: option.splits)

theorem InjectorConfig_Validate_requires_key_file_witness:
  "example_stat (VerifyKeyFile example_injector) = None \<and>
   InjectorConfig_Validate example_parse_duration example_stat example_injector = None \<and>
   example_stat (VerifyKeyFile missing_key_injector) \<noteq> None \<and>
   InjectorConfig_Validate example_parse_duration example_stat missing_key_injector =
     Some (Errorf ''failed to read verification key file: %v''
        [ArgErr (New ''stat /nonexistent.pem: no such file or directory'')])"
  using
    InjectorConfig_Validate_requires_key_file
      [where stat = example_stat and c = example_injector and pd = example_parse_duration]
    InjectorConfig_Validate_requires_key_file
      [where stat = example_stat and c = missing_key_injector and pd = example_parse_duration]
  by (simp add: validate_defs example_defs)

subsection \<open>Exactly one handler variant\<close>

text \<open>
  C3. \<^verbatim>\<open>HandlerConfig.Validate\<close> returns an error when none of \<^verbatim>\<open>Exec\<close>, \<^verbatim>\<open>HTTP\<close>,
  \<^verbatim>\<open>Func\<close> is set and when more than one is set; when exactly one is set it returns nil
  if and only if the validation of that variant returns nil.
\<close>

theorem HandlerConfig_Validate_exactly_one:
  "(Exec c = None \<and> HTTP c = None \<and> Func c = None \<longrightarrow> HandlerConfig_Validate pd c \<noteq> None) \<and>
   ((Exec c \<noteq> None \<and> HTTP c \<noteq> None) \<or> (Exec c \<noteq> None \<and> Func c \<noteq> None)
      \<or> (HTTP c \<noteq> None \<and> Func c \<noteq> None) \<longrightarrow> HandlerConfig_Validate pd c \<noteq> None) \<and>
   (Exec c = Some ex \<and> HTTP c = None \<and> Func c = None \<longrightarrow>
      (HandlerConfig_Validate pd c = None \<longleftrightarrow> ExecHandlerConfig_Validate pd ex = None)) \<and>
   (Exec c = None \<and> HTTP c = Some h \<and> Func c = None \<longrightarrow>
      (HandlerConfig_Validate pd c = None \<longleftrightarrow> HTTPHandlerConfig_Validate pd h = None)) \<and>
   (Exec c = None \<and> HTTP c = None \<and> Func c = Some f \<longrightarrow>
      (HandlerConfig_Validate pd c = None \<longleftrightarrow> FuncHandlerConfig_Validate f = None))"
  by (auto simp: HandlerConfig_Validate_def specified_def split: option.splits)

theorem HandlerConfig_Validate_exactly_one_witness:
  "HandlerConfig_Validate example_parse_duration no_handler \<noteq> None \<and>
   HandlerConfig_Validate example_parse_duration two_handlers \<noteq> None \<and>
   HandlerConfig_Validate example_parse_duration exec_handler = None \<and>
   ExecHandlerConfig_Validate example_parse_duration example_exec = None \<and>
   HandlerConfig_Validate example_parse_duration http_handler = None \<and>
   HTTPHandlerConfig_Validate example_parse_duration example_http = None \<and>
   HandlerConfig_Validate example_parse_duration func_handler = None \<and>
   FuncHandlerConfig_Validate \<lparr>Handler = Some ()\<rparr> = None \<and>
   HandlerConfig_Validate example_parse_duration
     (exec_handler\<lparr>Exec := Some (example_exec\<lparr>Command := ''''\<rparr>)\<rparr>) \<noteq> None"
  using
    HandlerConfig_Validate_exactly_one [where c = no_handler and pd = example_parse_duration]
    HandlerConfig_Validate_exactly_one [where c = two_handlers and pd = example_parse_duration]
    HandlerConfig_Validate_exactly_one
      [where c = exec_handler and ex = example_exec and pd = example_parse_duration]
    HandlerConfig_Validate_exactly_one
      [where c = http_handler and h = example_http and pd = example_parse_duration]
    HandlerConfig_Validate_exactly_one
      [where c = func_handler and f = "\<lparr>Handler = Some ()\<rparr>" and pd = example_parse_duration]
    HandlerConfig_Validate_exactly_one
      [where c = "exec_handler\<lparr>Exec := Some (example_exec\<lparr>Command := ''''\<rparr>)\<rparr>"
         and ex = "example_exec\<lparr>Command := ''''\<rparr>" and pd = example_parse_duration]
  by (simp add: validate_defs example_defs)

subsection \<open>Mandatory reconciler, optional finalizer and syncer\<close>

text \<open>
  C4. \<^verbatim>\<open>ControllerConfig.Validate\<close> returns an error whenever \<^verbatim>\<open>Reconciler\<close> is nil.
  It returns nil for every controller with a non-empty name, a non-empty resource,
  valid references, valid dependents and a valid reconciler, also when \<^verbatim>\<open>Finalizer\<close>
  and \<^verbatim>\<open>Syncer\<close> are both nil.
\<close>

theorem ControllerConfig_Validate_reconciler_mandatory:
  "(Reconciler c = None \<longrightarrow> ControllerConfig_Validate pd c \<noteq> None) \<and>
   (Name c \<noteq> '''' \<and> \<not> Empty (ControllerConfig.Resource c) \<and>
    (\<forall>ref \<in> set (References c). ReferenceConfig_Validate ref = None) \<and>
    (\<forall>dep \<in> set (Dependents c). DependentConfig_Validate dep = None) \<and>
    Reconciler c = Some r \<and> ReconcilerConfig_Validate pd r = None \<and>
    Finalizer c = None \<and> Syncer c = None
    \<longrightarrow> ControllerConfig_Validate pd c = None)"
  by (auto simp: ControllerConfig_Validate_None_iff validate_References_None_iff
        validate_Dependents_None_iff DependentConfig_Validate_def split: if_splits)

theorem ControllerConfig_Validate_reconciler_mandatory_witness:
  "Finalizer example_controller = None \<and> Syncer example_controller = None \<and>
   ControllerConfig_Validate example_parse_duration example_controller = None \<and>
   ControllerConfig_Validate example_parse_duration (example_controller\<lparr>Reconciler := None\<rparr>)
     = Some (New ''reconciler must be specified'')"
  using
    ControllerConfig_Validate_reconciler_mandatory
      [where c = example_controller and r = example_reconciler and pd = example_parse_duration]
    ControllerConfig_Validate_reconciler_mandatory
      [where c = "example_controller\<lparr>Reconciler := None\<rparr>" and pd = example_parse_duration]
  by (simp add: validate_defs example_defs)

subsection \<open>Server certificate of the webhook\<close>

text \<open>
  C5. \<^verbatim>\<open>Config.Validate\<close> rejects every configuration whose \<^verbatim>\<open>Webhook\<close> is present
  with a nil \<^verbatim>\<open>TLS\<close> block, or with a \<^verbatim>\<open>TLS\<close> block whose \<^verbatim>\<open>certFile\<close> or
  \<^verbatim>\<open>keyFile\<close> is empty: the call never returns nil, and it returns an error unless a
  nil entry of \<^verbatim>\<open>Controllers\<close> makes it panic before it returns.
\<close>

theorem Config_Validate_webhook_certificate_mandatory:
  "Webhook c = Some w \<and>
   (WebhookConfig.TLS w = None \<or>
    (\<exists>tls. WebhookConfig.TLS w = Some tls \<and>
       (WebhookTLSConfig.CertFile tls = '''' \<or> WebhookTLSConfig.KeyFile tls = '''')))
   \<longrightarrow> Config_Validate pd c \<noteq> Return None \<and>
       (None \<notin> set (Controllers c) \<longrightarrow> (\<exists>err. Config_Validate pd c = Return (Some err)))"
proof (intro impI)
  assume a: "Webhook c = Some w \<and>
   (WebhookConfig.TLS w = None \<or>
    (\<exists>tls. WebhookConfig.TLS w = Some tls \<and>
       (WebhookTLSConfig.CertFile tls = '''' \<or> WebhookTLSConfig.KeyFile tls = '''')))"
  then have "WebhookConfig_Validate w \<noteq> None"
    by (auto simp: WebhookConfig_Validate_def WebhookTLSConfig_Validate_def split: option.splits)
  with a have rejected: "Config_Validate pd c \<noteq> Return None"
    by (auto simp: Config_Validate_Return_None_iff)
  have "\<exists>err. Config_Validate pd c = Return (Some err)" if "None \<notin> set (Controllers c)"
  proof -
    from that have "Config_Validate pd c \<noteq> Panic"
      by (simp add: Config_Validate_Panic_iff validate_Controllers_no_nil)
    with rejected show ?thesis
      by (cases "Config_Validate pd c") auto
  qed
  with rejected show "Config_Validate pd c \<noteq> Return None \<and>
       (None \<notin> set (Controllers c) \<longrightarrow> (\<exists>err. Config_Validate pd c = Return (Some err)))"
    by blast
qed

theorem Config_Validate_webhook_certificate_mandatory_witness:
  "Config_Validate example_parse_duration
     \<lparr>Controllers = [Some example_controller], Webhook = Some webhook_without_tls, Metrics = None\<rparr>
     = Return (Some (Errorf ''webhook: %v'' [ArgErr (New ''tls must be specified'')])) \<and>
   Config_Validate example_parse_duration
     \<lparr>Controllers = [Some example_controller], Webhook = Some webhook_without_key, Metrics = None\<rparr>
     = Return (Some (Errorf ''webhook: %v''
         [ArgErr (Errorf ''tls: %v'' [ArgErr (New ''key file must be specified'')])]))"
  using
    Config_Validate_webhook_certificate_mandatory
      [where c = "\<lparr>Controllers = [Some example_controller], Webhook = Some webhook_without_tls,
                   Metrics = None\<rparr>"
         and w = webhook_without_tls and pd = example_parse_duration]
    Config_Validate_webhook_certificate_mandatory
      [where c = "\<lparr>Controllers = [Some example_controller], Webhook = Some webhook_without_key,
                   Metrics = None\<rparr>"
         and w = webhook_without_key and pd = example_parse_duration]
  by (simp add: validate_defs example_defs)

subsection \<open>Controller names\<close>

text \<open>
  C6, as stated: no two controllers of an accepted configuration share a name. The
  validation never compares the names of two controllers, and the statement fails:
  the configuration below has two controllers named ``hello'', for two different
  resources, and \<^verbatim>\<open>Config.Validate\<close> returns nil on it.
\<close>

theorem Config_Validate_accepts_duplicate_names:
  "Config_Validate example_parse_duration duplicate_names_config = Return None \<and>
   \<not> distinct (map (map_option Name) (Controllers duplicate_names_config))"
  by (simp add: validate_defs example_defs)

text \<open>
  C6, amended: in every configuration accepted by \<^verbatim>\<open>Config.Validate\<close>, every entry of
  \<^verbatim>\<open>Controllers\<close> is a non-nil controller that passes \<^verbatim>\<open>ControllerConfig.Validate\<close>
  and has a non-empty name. Uniqueness of the names is not checked.
\<close>

theorem Config_Validate_names_nonempty:
  "Config_Validate pd c = Return None \<Longrightarrow>
     \<forall>x \<in> set (Controllers c). \<exists>controller. x = Some controller \<and>
        ControllerConfig_Validate pd controller = None \<and> Name controller \<noteq> ''''"
  by (fastforce simp: Config_Validate_Return_None_iff validate_Controllers_Return_None_iff
        ControllerConfig_Validate_None_iff)

theorem Config_Validate_names_nonempty_witness:
  "Config_Validate example_parse_duration duplicate_names_config = Return None \<and>
   Controllers duplicate_names_config = [Some example_controller, Some other_controller] \<and>
   ControllerConfig_Validate example_parse_duration example_controller = None \<and>
   Name example_controller = ''hello'' \<and>
   ControllerConfig_Validate example_parse_duration other_controller = None \<and>
   Name other_controller = ''hello''"
  using Config_Validate_names_nonempty
    [where c = duplicate_names_config and pd = example_parse_duration]
  by (simp add: validate_defs example_defs)

subsection \<open>Duration strings\<close>

text \<open>
  C7. The four duration strings (the syncer's \<^verbatim>\<open>interval\<close>, the reconciler's
  \<^verbatim>\<open>requeueAfter\<close>, the \<^verbatim>\<open>timeout\<close> of an exec handler and of an HTTP handler) are
  validated alike. When the other fields of the configuration are valid, \<^verbatim>\<open>Validate\<close>
  returns nil if and only if the string is empty or \<^verbatim>\<open>time.ParseDuration\<close> parses it;
  and for every non-empty string that does not parse, \<^verbatim>\<open>Validate\<close> returns an error
  whatever the other fields are.
\<close>

theorem duration_strings_validated_alike:
  "(SyncerConfig_Validate pd s = None \<longleftrightarrow> Interval s = '''' \<or> pd (Interval s) = None) \<and>
   (HandlerConfig_Validate pd (ReconcilerConfig.HandlerConfig r) = None \<longrightarrow>
      (ReconcilerConfig_Validate pd r = None \<longleftrightarrow>
         RequeueAfter r = '''' \<or> pd (RequeueAfter r) = None)) \<and>
   (RequeueAfter r \<noteq> '''' \<and> pd (RequeueAfter r) \<noteq> None \<longrightarrow>
      ReconcilerConfig_Validate pd r \<noteq> None) \<and>
   (Command e \<noteq> '''' \<longrightarrow>
      (ExecHandlerConfig_Validate pd e = None \<longleftrightarrow>
         ExecHandlerConfig.Timeout e = '''' \<or> pd (ExecHandlerConfig.Timeout e) = None)) \<and>
   (ExecHandlerConfig.Timeout e \<noteq> '''' \<and> pd (ExecHandlerConfig.Timeout e) \<noteq> None \<longrightarrow>
      ExecHandlerConfig_Validate pd e \<noteq> None) \<and>
   (URL h \<noteq> '''' \<and>
    (case HTTPHandlerConfig.TLS h of
       None \<Rightarrow> True
     | Some tls \<Rightarrow> HTTPHanlderTLSConfig_Validate tls = None) \<longrightarrow>
      (HTTPHandlerConfig_Validate pd h = None \<longleftrightarrow>
         HTTPHandlerConfig.Timeout h = '''' \<or> pd (HTTPHandlerConfig.Timeout h) = None)) \<and>
   (HTTPHandlerConfig.Timeout h \<noteq> '''' \<and> pd (HTTPHandlerConfig.Timeout h) \<noteq> None \<longrightarrow>
      HTTPHandlerConfig_Validate pd h \<noteq> None)"
  by (auto simp: SyncerConfig_Validate_def ReconcilerConfig_Validate_def
        ExecHandlerConfig_Validate_def HTTPHandlerConfig_Validate_def split: option.splits)

theorem duration_strings_validated_alike_witness:
  "SyncerConfig_Validate example_parse_duration \<lparr>Interval = ''''\<rparr> = None \<and>
   SyncerConfig_Validate example_parse_duration \<lparr>Interval = ''1m''\<rparr> = None \<and>
   SyncerConfig_Validate example_parse_duration \<lparr>Interval = ''soon''\<rparr> \<noteq> None \<and>
   ReconcilerConfig_Validate example_parse_duration example_reconciler = None \<and>
   ReconcilerConfig_Validate example_parse_duration
     (example_reconciler\<lparr>RequeueAfter := ''10s''\<rparr>) = None \<and>
   ReconcilerConfig_Validate example_parse_duration
     (example_reconciler\<lparr>RequeueAfter := ''soon''\<rparr>) \<noteq> None \<and>
   ExecHandlerConfig_Validate example_parse_duration
     (example_exec\<lparr>ExecHandlerConfig.Timeout := ''''\<rparr>) = None \<and>
   ExecHandlerConfig_Validate example_parse_duration example_exec = None \<and>
   ExecHandlerConfig_Validate example_parse_duration
     (example_exec\<lparr>ExecHandlerConfig.Timeout := ''soon''\<rparr>) \<noteq> None \<and>
   HTTPHandlerConfig_Validate example_parse_duration
     (example_http\<lparr>HTTPHandlerConfig.Timeout := ''''\<rparr>) = None \<and>
   HTTPHandlerConfig_Validate example_parse_duration example_http = None \<and>
   HTTPHandlerConfig_Validate example_parse_duration
     (example_http\<lparr>HTTPHandlerConfig.Timeout := ''soon''\<rparr>) \<noteq> None"
  using
    duration_strings_validated_alike
      [where pd = example_parse_duration and s = "\<lparr>Interval = ''''\<rparr>"
         and r = example_reconciler
         and e = "example_exec\<lparr>ExecHandlerConfig.Timeout := ''''\<rparr>"
         and h = "example_http\<lparr>HTTPHandlerConfig.Timeout := ''''\<rparr>"]
    duration_strings_validated_alike
      [where pd = example_parse_duration and s = "\<lparr>Interval = ''1m''\<rparr>"
         and r = "example_reconciler\<lparr>RequeueAfter := ''10s''\<rparr>"
         and e = example_exec and h = example_http]
    duration_strings_validated_alike
      [where pd = example_parse_duration and s = "\<lparr>Interval = ''soon''\<rparr>"
         and r = "example_reconciler\<lparr>RequeueAfter := ''soon''\<rparr>"
         and e = "example_exec\<lparr>ExecHandlerConfig.Timeout := ''soon''\<rparr>"
         and h = "example_http\<lparr>HTTPHandlerConfig.Timeout := ''soon''\<rparr>"]
  by (simp add: validate_defs example_defs)

subsection \<open>Loading a file\<close>

text \<open>
  C8. Every configuration returned by \<^verbatim>\<open>LoadFile\<close> is validated: when \<^verbatim>\<open>LoadFile\<close>
  returns a non-nil configuration with a nil error, \<^verbatim>\<open>Validate\<close> returns nil on that
  configuration. When reading the file fails, when unmarshalling fails, or when
  \<^verbatim>\<open>Validate\<close> returns an error, \<^verbatim>\<open>LoadFile\<close> returns a nil configuration together
  with that error.
\<close>

theorem LoadFile_returns_validated_config:
  "(LoadFile rf um pd p = Return (Some c, None) \<longrightarrow> Config_Validate pd c = Return None) \<and>
   (snd (rf p) = Some err \<longrightarrow> LoadFile rf um pd p = Return (None, Some err)) \<and>
   (snd (rf p) = None \<and> snd (um (fst (rf p)) zero_Config) = Some err \<longrightarrow>
      LoadFile rf um pd p = Return (None, Some err)) \<and>
   (snd (rf p) = None \<and> um (fst (rf p)) zero_Config = (c', None) \<and>
    Config_Validate pd c' = Return (Some err) \<longrightarrow>
      LoadFile rf um pd p = Return (None, Some err))"
  by (auto simp: LoadFile_def split: prod.splits option.splits outcome.splits)

theorem LoadFile_returns_validated_config_witness:
  "LoadFile example_read_file example_unmarshal example_parse_duration ''config.yaml''
     = Return (Some valid_config, None) \<and>
   Config_Validate example_parse_duration valid_config = Return None \<and>
   LoadFile example_read_file example_unmarshal example_parse_duration ''missing.yaml''
     = Return (None, Some (New ''open missing.yaml: no such file or directory'')) \<and>
   LoadFile example_read_file example_unmarshal example_parse_duration ''broken.yaml''
     = Return (None, Some (New ''yaml: did not find expected node content'')) \<and>
   LoadFile example_read_file example_unmarshal example_parse_duration ''unnamed.yaml''
     = Return (None, Some (Errorf ''controller[%d]: %v''
         [ArgInt 0, ArgErr (New ''name must be specified'')]))"
  using
    LoadFile_returns_validated_config
      [where rf = example_read_file and um = example_unmarshal and pd = example_parse_duration
         and p = "''config.yaml''" and c = valid_config]
    LoadFile_returns_validated_config
      [where rf = example_read_file and um = example_unmarshal and pd = example_parse_duration
         and p = "''missing.yaml''"
         and err = "New ''open missing.yaml: no such file or directory''"]
    LoadFile_returns_validated_config
      [where rf = example_read_file and um = example_unmarshal and pd = example_parse_duration
         and p = "''broken.yaml''" and err = "New ''yaml: did not find expected node content''"]
    LoadFile_returns_validated_config
      [where rf = example_read_file and um = example_unmarshal and pd = example_parse_duration
         and p = "''unnamed.yaml''" and c' = unnamed_config
         and err = "Errorf ''controller[%d]: %v''
                      [ArgInt 0, ArgErr (New ''name must be specified'')]"]
  by (simp add: validate_defs example_defs)

subsection \<open>Webhook handlers\<close>

text \<open>
  C9. \<^verbatim>\<open>WebhookHandlerConfig.Validate\<close> looks at the resource and at the validator
  only: with a non-empty resource and a validator that is nil or valid it returns nil,
  and its result does not depend on \<^verbatim>\<open>Mutator\<close> and \<^verbatim>\<open>Injector\<close>, which may be
  present and invalid.
\<close>

theorem WebhookHandlerConfig_Validate_ignores_mutator_and_injector:
  "(\<not> Empty (WebhookHandlerConfig.Resource c) \<and>
    (Validator c = None \<or> (\<exists>v. Validator c = Some v \<and> HandlerConfig_Validate pd v = None))
    \<longrightarrow> WebhookHandlerConfig_Validate pd c = None) \<and>
   WebhookHandlerConfig_Validate pd (c\<lparr>Mutator := m, Injector := j\<rparr>) =
     WebhookHandlerConfig_Validate pd c"
  by (auto simp: WebhookHandlerConfig_Validate_def split: option.splits)

theorem WebhookHandlerConfig_Validate_ignores_mutator_and_injector_witness:
  "\<not> Empty (WebhookHandlerConfig.Resource example_webhook_handler) \<and>
   Validator example_webhook_handler = Some exec_handler \<and>
   HandlerConfig_Validate example_parse_duration exec_handler = None \<and>
   Mutator example_webhook_handler = Some no_handler \<and>
   HandlerConfig_Validate example_parse_duration no_handler \<noteq> None \<and>
   Injector example_webhook_handler = Some two_handlers_injector \<and>
   InjectorConfig_Validate example_parse_duration example_stat two_handlers_injector \<noteq> None \<and>
   WebhookHandlerConfig_Validate example_parse_duration example_webhook_handler = None"
  using WebhookHandlerConfig_Validate_ignores_mutator_and_injector
    [where c = example_webhook_handler and pd = example_parse_duration]
  by (simp add: validate_defs example_defs)

subsection \<open>References\<close>

text \<open>
  C10. \<^verbatim>\<open>ReferenceConfig.Validate\<close> returns an error exactly when the
  \<^verbatim>\<open>GroupVersionKind\<close> is empty or \<^verbatim>\<open>NameFieldPath\<close> is the empty string; hence every
  reference of a controller accepted by \<^verbatim>\<open>ControllerConfig.Validate\<close> has a non-empty
  \<^verbatim>\<open>GroupVersionKind\<close> and a non-empty \<^verbatim>\<open>NameFieldPath\<close>.
\<close>

theorem ReferenceConfig_Validate_well_formed:
  "(ReferenceConfig_Validate ref \<noteq> None \<longleftrightarrow>
      Empty (ReferenceConfig.GroupVersionKind ref) \<or> NameFieldPath ref = '''') \<and>
   (ControllerConfig_Validate pd c = None \<longrightarrow>
      (\<forall>r \<in> set (References c).
         \<not> Empty (ReferenceConfig.GroupVersionKind r) \<and> NameFieldPath r \<noteq> ''''))"
proof -
  have iff: "ReferenceConfig_Validate x \<noteq> None \<longleftrightarrow>
      Empty (ReferenceConfig.GroupVersionKind x) \<or> NameFieldPath x = ''''" for x
    by (simp add: ReferenceConfig_Validate_def)
  have "\<forall>r \<in> set (References c). ReferenceConfig_Validate r = None"
    if "ControllerConfig_Validate pd c = None"
    using that by (simp add: ControllerConfig_Validate_None_iff validate_References_None_iff)
  with iff show ?thesis by blast
qed

theorem ReferenceConfig_Validate_well_formed_witness:
  "ControllerConfig_Validate example_parse_duration example_controller = None \<and>
   References example_controller = [example_reference] \<and>
   \<not> Empty (ReferenceConfig.GroupVersionKind example_reference) \<and>
   NameFieldPath example_reference \<noteq> '''' \<and>
   ReferenceConfig_Validate (example_reference\<lparr>NameFieldPath := ''''\<rparr>) \<noteq> None"
  using ReferenceConfig_Validate_well_formed
    [where c = example_controller and pd = example_parse_duration
       and ref = "example_reference\<lparr>NameFieldPath := ''''\<rparr>"]
  by (simp add: validate_defs example_defs)

end
